theory Spec2Isabelle
  imports Main "HOL-Library.AList" "HOL-Library.Word"
begin

section \<open>Host values\<close>

text \<open>
  The decoder of \<^verbatim>\<open>azure/kusto/data/_models.py\<close> works on a parsed JSON document.
  A Python \<^verbatim>\<open>str\<close> is a \<open>string\<close> whose characters are the code points below 256; a
  \<^verbatim>\<open>float\<close> is its 64-bit pattern, on which nothing is computed here; a \<^verbatim>\<open>dict\<close> is an
  association list read with \<open>map_of\<close> (the first binding of a key is the dict's entry).
\<close>

datatype pyfloat = PyFloat "64 word"

datatype json =
    JNull
  | JBool bool
  | JInt int
  | JFloat pyfloat
  | JStr string
  | JList "json list"
  | JDict "(string \<times> json) list"

text \<open>
  Every exception the module can raise is a value. \<open>KustoServiceError\<close> carries the two
  arguments it is raised with: the message and the table document.
\<close>

datatype error =
    IndexError
  | AttributeError
  | KeyError
  | TypeError
  | ValueError
  | OtherError string
  | KustoServiceError json json

subsection \<open>Built-ins of the host language\<close>

text \<open>\<^verbatim>\<open>str.isdigit\<close>, \<^verbatim>\<open>str.isalpha\<close>, \<^verbatim>\<open>int\<close> and \<^verbatim>\<open>str.lower\<close> on one character. The
  superscripts two, three and one (178, 179, 185) are digits for \<^verbatim>\<open>isdigit\<close> but not for
  \<^verbatim>\<open>int\<close>, which raises \<^verbatim>\<open>ValueError\<close> on them.\<close>

definition isdigit :: "char \<Rightarrow> bool" where
  "isdigit c = (let n = (of_char c :: nat) in (48 \<le> n \<and> n \<le> 57) \<or> n = 178 \<or> n = 179 \<or> n = 185)"

definition isalpha :: "char \<Rightarrow> bool" where
  "isalpha c = (let n = (of_char c :: nat) in
     (65 \<le> n \<and> n \<le> 90) \<or> (97 \<le> n \<and> n \<le> 122) \<or> n = 170 \<or> n = 181 \<or> n = 186 \<or>
     (192 \<le> n \<and> n \<le> 214) \<or> (216 \<le> n \<and> n \<le> 246) \<or> (248 \<le> n \<and> n \<le> 255))"

definition int_of_char :: "char \<Rightarrow> error + int" where
  "int_of_char c = (let n = (of_char c :: nat) in
     if 48 \<le> n \<and> n \<le> 57 then Inr (int n - 48) else Inl ValueError)"

definition lower_char :: "char \<Rightarrow> char" where
  "lower_char c = (let n = (of_char c :: nat) in
     if (65 \<le> n \<and> n \<le> 90) \<or> (192 \<le> n \<and> n \<le> 214) \<or> (216 \<le> n \<and> n \<le> 222)
     then char_of (n + 32) else c)"

definition str_lower :: "string \<Rightarrow> string" where
  "str_lower s = map lower_char s"

text \<open>\<^verbatim>\<open>s.split(sep)\<close> for a separator of one character: one more field than separators.\<close>

fun str_split :: "char \<Rightarrow> string \<Rightarrow> string list" where
  "str_split sep [] = [[]]"
| "str_split sep (c # cs) =
     (if c = sep then [] # str_split sep cs
      else (case str_split sep cs of
              [] \<Rightarrow> [[c]]
            | f # fs \<Rightarrow> (c # f) # fs))"

text \<open>\<^verbatim>\<open>xs[i]\<close> for \<open>i \<ge> 0\<close>: \<^verbatim>\<open>IndexError\<close> out of range.\<close>

definition subscript :: "'a list \<Rightarrow> nat \<Rightarrow> error + 'a" where
  "subscript xs i = (if i < length xs then Inr (xs ! i) else Inl IndexError)"

text \<open>\<^verbatim>\<open>xs[i]\<close> for any integer: a negative index counts from the end.\<close>

definition py_index :: "'a list \<Rightarrow> int \<Rightarrow> error + 'a" where
  "py_index xs i =
     (if 0 \<le> i then subscript xs (nat i)
      else if nat (- i) \<le> length xs then subscript xs (length xs - nat (- i))
      else Inl IndexError)"

text \<open>Truth value of a JSON value (\<^verbatim>\<open>x or y\<close>).\<close>

fun truthy :: "json \<Rightarrow> bool" where
  "truthy JNull = False"
| "truthy (JBool b) = b"
| "truthy (JInt i) = (i \<noteq> 0)"
| "truthy (JFloat (PyFloat w)) = (w \<noteq> 0 \<and> w \<noteq> 2 ^ 63)"
| "truthy (JStr s) = (s \<noteq> [])"
| "truthy (JList xs) = (xs \<noteq> [])"
| "truthy (JDict kvs) = (kvs \<noteq> [])"

text \<open>\<^verbatim>\<open>d.get(k)\<close> and \<^verbatim>\<open>x[k]\<close> for a string \<open>k\<close>, \<^verbatim>\<open>x[0]\<close>, and iteration.\<close>

definition dict_get :: "(string \<times> json) list \<Rightarrow> string \<Rightarrow> json" where
  "dict_get kvs k = (case map_of kvs k of None \<Rightarrow> JNull | Some v \<Rightarrow> v)"

fun getitem_str :: "json \<Rightarrow> string \<Rightarrow> error + json" where
  "getitem_str (JDict kvs) k = (case map_of kvs k of None \<Rightarrow> Inl KeyError | Some v \<Rightarrow> Inr v)"
| "getitem_str _ k = Inl TypeError"

fun getitem_zero :: "json \<Rightarrow> error + json" where
  "getitem_zero (JList xs) = subscript xs 0"
| "getitem_zero (JStr s) = (case s of [] \<Rightarrow> Inl IndexError | c # _ \<Rightarrow> Inr (JStr [c]))"
| "getitem_zero (JDict kvs) = Inl KeyError"
| "getitem_zero _ = Inl TypeError"

fun py_iter :: "json \<Rightarrow> error + json list" where
  "py_iter (JList xs) = Inr xs"
| "py_iter (JStr s) = Inr (map (\<lambda>c. JStr [c]) s)"
| "py_iter (JDict kvs) = Inr (map (\<lambda>kv. JStr (fst kv)) kvs)"
| "py_iter _ = Inl TypeError"

fun is_dict :: "json \<Rightarrow> bool" where
  "is_dict (JDict kvs) = True"
| "is_dict _ = False"

text \<open>\<^verbatim>\<open>str(n)\<close> for an integer.\<close>

fun str_nat :: "nat \<Rightarrow> string" where
  "str_nat n = (if n < 10 then [char_of (48 + n)] else str_nat (n div 10) @ [char_of (48 + n mod 10)])"

definition str_int :: "int \<Rightarrow> string" where
  "str_int i = (if i < 0 then CHR ''-'' # str_nat (nat (- i)) else str_nat (nat i))"

section \<open>Data model\<close>

datatype WellKnownDataSet =
  PrimaryResult | QueryCompletionInformation | TableOfContents | QueryProperties

fun enum_value :: "WellKnownDataSet \<Rightarrow> string" where
  "enum_value PrimaryResult = ''PrimaryResult''"
| "enum_value QueryCompletionInformation = ''QueryCompletionInformation''"
| "enum_value TableOfContents = ''TableOfContents''"
| "enum_value QueryProperties = ''QueryProperties''"

text \<open>\<^verbatim>\<open>WellKnownDataSet[x]\<close>: lookup by member name; the names are the values.\<close>

fun enum_lookup :: "json \<Rightarrow> error + WellKnownDataSet" where
  "enum_lookup (JStr s) =
     (if s = ''PrimaryResult'' then Inr PrimaryResult
      else if s = ''QueryCompletionInformation'' then Inr QueryCompletionInformation
      else if s = ''TableOfContents'' then Inr TableOfContents
      else if s = ''QueryProperties'' then Inr QueryProperties
      else Inl KeyError)"
| "enum_lookup (JList xs) = Inl TypeError"
| "enum_lookup (JDict kvs) = Inl TypeError"
| "enum_lookup _ = Inl KeyError"

record KustoResultColumn =
  column_name :: json
  column_type :: json
  ordinal :: nat

text \<open>
  The integer a float is equal to, if any. A double with exponent field \<open>e\<close> between 1
  and 2046 and fraction field \<open>m\<close> is plus or minus \<open>(2 ^ 52 + m) * 2 ^ (e - 1075)\<close>; with
  \<open>e = 0\<close> it is zero or smaller than 1 in size; with \<open>e = 2047\<close> it is infinite or not a
  number.
\<close>

definition float_integer :: "pyfloat \<Rightarrow> int option" where
  "float_integer x =
     (case x of
        PyFloat w \<Rightarrow>
          (let e = unat (drop_bit 52 w) mod 2048;
               m = uint (take_bit 52 w);
               signed = (\<lambda>i :: int. if bit w 63 then - i else i)
           in if e = 0 then (if m = 0 then Some 0 else None)
              else if e = 2047 then None
              else if 1075 \<le> e then Some (signed ((2 ^ 52 + m) * 2 ^ (e - 1075)))
              else if (2 ^ 52 + m) mod 2 ^ (1075 - e) = 0
                then Some (signed ((2 ^ 52 + m) div 2 ^ (1075 - e)))
              else None))"

text \<open>
  Keys of the two dicts of a row. A hashable JSON value is a key, and equal numbers are
  one key: \<^verbatim>\<open>True\<close>, \<^verbatim>\<open>1\<close> and \<^verbatim>\<open>1.0\<close>, or \<^verbatim>\<open>0\<close>, \<^verbatim>\<open>0.0\<close> and \<^verbatim>\<open>-0.0\<close>. A float that is
  no integer is the key of its bits (a not-a-number, which Python keys by the identity of
  the object, is taken by its bits too). A column object is a key as well, hashed by
  identity. The columns of one table differ in \<open>ordinal\<close>, so equality of the records is
  identity of the objects there.
\<close>

datatype key = KNone | KInt int | KFloat pyfloat | KStr string | KColumn KustoResultColumn

fun hash_key :: "json \<Rightarrow> error + key" where
  "hash_key JNull = Inr KNone"
| "hash_key (JBool b) = Inr (KInt (if b then 1 else 0))"
| "hash_key (JInt i) = Inr (KInt i)"
| "hash_key (JFloat f) = Inr (case float_integer f of Some i \<Rightarrow> KInt i | None \<Rightarrow> KFloat f)"
| "hash_key (JStr s) = Inr (KStr s)"
| "hash_key (JList xs) = Inl TypeError"
| "hash_key (JDict kvs) = Inl TypeError"

text \<open>
  A decoded value: the raw JSON value, or what a converter made of it. A \<^verbatim>\<open>timedelta\<close> is
  its number of microseconds; \<open>'dt\<close> and \<open>'dec\<close> stand for \<^verbatim>\<open>datetime\<close> and \<^verbatim>\<open>Decimal\<close>.
\<close>

datatype ('dt, 'dec) pyval = Raw json | Datetime 'dt | Timedelta int | Dec 'dec

record ('dt, 'dec) KustoResultRow =
  value_by_name :: "(key \<times> ('dt, 'dec) pyval) list"
  value_by_index :: "('dt, 'dec) pyval list"
  hidden_values :: "json list"
  seventh_digit :: "(key \<times> int) list"

record ('dt, 'dec) KustoResultTable =
  table_name :: json
  table_id :: json
  table_kind :: "WellKnownDataSet option"
  columns :: "KustoResultColumn list"
  rows :: "('dt, 'dec) KustoResultRow list"

text \<open>
  What the module takes from outside \<^verbatim>\<open>_models.py\<close>: the converters of \<^verbatim>\<open>_converters\<close>
  and \<^verbatim>\<open>Decimal\<close>, each of which may raise; the float operations \<^verbatim>\<open>timedelta.total_seconds\<close>,
  \<^verbatim>\<open>int(x)\<close> and \<^verbatim>\<open>float(s)\<close>; and the module flag \<^verbatim>\<open>keep_high_precision_values\<close>.
\<close>

record ('dt, 'dec) host =
  to_datetime :: "json \<Rightarrow> error + 'dt"
  to_timedelta :: "json \<Rightarrow> error + int"
  Decimal :: "json \<Rightarrow> error + 'dec"
  total_seconds :: "int \<Rightarrow> pyfloat"
  int_of_float :: "pyfloat \<Rightarrow> int"
  float_of_str :: "string \<Rightarrow> error + pyfloat"
  keep_high_precision_values :: bool

section \<open>The precise representation\<close>

text \<open>
  \<^verbatim>\<open>_get_precise_repr(t, raw_value, typed_value, **kwargs)\<close>. The keyword arguments are
  the four the row decoder passes: \<open>None\<close> where the decoder's variable is still \<^verbatim>\<open>None\<close>.
  \<^verbatim>\<open>raw_value[:-lookback]\<close> is taken of a string with a look-back that is set (with the
  look-back 0 it is the empty string); the row decoder never calls it otherwise (the
  seventh character exists for a string only, and the look-back is set as soon as it is a
  digit), and Python raises \<^verbatim>\<open>TypeError\<close> there.
  The last branch formats \<^verbatim>\<open>"Unknown type {t}".format(t)\<close>, a named field with no keyword
  argument: that raises \<^verbatim>\<open>KeyError\<close> before the \<^verbatim>\<open>ValueError\<close> is built.
\<close>

definition get_precise_repr ::
  "('dt, 'dec) host \<Rightarrow> string \<Rightarrow> json \<Rightarrow> ('dt, 'dec) pyval \<Rightarrow>
     string option \<Rightarrow> string \<Rightarrow> nat option \<Rightarrow> char option \<Rightarrow> error + json" where
  "get_precise_repr h t raw_value typed_value seconds_fractions_part suffix lookback seventh_char =
     (if t = ''datetime'' then
        (case seventh_char of
           None \<Rightarrow> Inr raw_value
         | Some c \<Rightarrow>
             if isdigit c then
               (case (raw_value, lookback) of
                  (JStr s, Some n) \<Rightarrow>
                    Inr (JStr ((if n = 0 then [] else take (length s - n) s) @ [c] @ ''00'' @ suffix))
                | _ \<Rightarrow> Inl TypeError)
             else Inr raw_value)
      else if t = ''timespan'' then
        (case typed_value of
           Timedelta us \<Rightarrow>
             (case seconds_fractions_part of
                None \<Rightarrow> Inr (JFloat (total_seconds h us))
              | Some f \<Rightarrow>
                  if f \<noteq> [] then
                    (let whole_part = int_of_float h (total_seconds h us);
                         fractions = str_int whole_part @ ''.'' @ f
                     in case float_of_str h fractions of
                          Inl e \<Rightarrow> Inl e
                        | Inr total_secs \<Rightarrow> Inr (JFloat total_secs))
                  else Inr (JFloat (total_seconds h us)))
         | _ \<Rightarrow> Inl AttributeError)
      else Inl KeyError)"

section \<open>Decoding a row\<close>

text \<open>The class attribute \<^verbatim>\<open>convertion_funcs\<close>.\<close>

definition convertion_funcs ::
  "('dt, 'dec) host \<Rightarrow> string \<Rightarrow> (json \<Rightarrow> error + ('dt, 'dec) pyval) option" where
  "convertion_funcs h t =
     (if t = ''datetime'' then Some (\<lambda>v. map_sum id Datetime (to_datetime h v))
      else if t = ''timespan'' then Some (\<lambda>v. map_sum id Timedelta (to_timedelta h v))
      else if t = ''decimal'' then Some (\<lambda>v. map_sum id Dec (Decimal h v))
      else None)"

text \<open>Line 83: the trailing letter of a string value, outside the \<^verbatim>\<open>try\<close>.\<close>

definition get_last :: "json \<Rightarrow> error + string" where
  "get_last v =
     (case v of
        JStr s \<Rightarrow>
          if s = [] then Inl IndexError
          else if isalpha (last s) then Inr [last s]
          else Inr []
      | _ \<Rightarrow> Inr [])"

text \<open>
  Lines 94 to 96, the three steps that look for the seventh digit. Only a string has
  \<^verbatim>\<open>split\<close>. The result keeps what was assigned before a step failed:
  \<open>NoFraction\<close> when \<^verbatim>\<open>seconds_fractions_part\<close> is still \<^verbatim>\<open>None\<close>, \<open>ShortFraction\<close> when it is
  set and has no seventh character.
\<close>

datatype extraction = NoFraction error | ShortFraction string error | Seventh string char

definition extract_seventh :: "json \<Rightarrow> extraction" where
  "extract_seventh v =
     (case v of
        JStr s \<Rightarrow>
          (case subscript (str_split CHR '':'' s) 2 of
             Inl e \<Rightarrow> NoFraction e
           | Inr seconds_part \<Rightarrow>
               (case subscript (str_split CHR ''.'' seconds_part) 1 of
                  Inl e \<Rightarrow> NoFraction e
                | Inr f \<Rightarrow>
                    (case subscript f 6 of
                       Inl e \<Rightarrow> ShortFraction f e
                     | Inr c \<Rightarrow> Seventh f c)))
      | _ \<Rightarrow> NoFraction AttributeError)"

text \<open>The decoder's variables after the \<^verbatim>\<open>try\<close> statement, as \<^verbatim>\<open>_get_precise_repr\<close>
  receives them.\<close>

fun fractions_of :: "extraction \<Rightarrow> string option" where
  "fractions_of (NoFraction e) = None"
| "fractions_of (ShortFraction f e) = Some f"
| "fractions_of (Seventh f c) = Some f"

fun seventh_of :: "extraction \<Rightarrow> char option" where
  "seventh_of (Seventh f c) = Some c"
| "seventh_of _ = None"

fun lookback_of :: "extraction \<Rightarrow> string \<Rightarrow> nat option" where
  "lookback_of (Seventh f c) suffix = (if isdigit c then Some (if suffix \<noteq> [] then 2 else 1) else None)"
| "lookback_of _ suffix = None"

text \<open>\<^verbatim>\<open>abs(typed_value) == typed_value\<close>: a \<^verbatim>\<open>timedelta\<close> is its own absolute value
  unless it is negative; \<^verbatim>\<open>abs\<close> of anything else a converter returns raises.\<close>

fun is_own_abs :: "('dt, 'dec) pyval \<Rightarrow> error + bool" where
  "is_own_abs (Timedelta us) = Inr (0 \<le> us)"
| "is_own_abs _ = Inl TypeError"

text \<open>Lines 103 to 111: the tick is recorded under the column's name when it is not 0.\<close>

definition record_tick ::
  "string \<Rightarrow> KustoResultColumn \<Rightarrow> int \<Rightarrow> ('dt, 'dec) pyval \<Rightarrow> (key \<times> int) list \<Rightarrow>
     error + (key \<times> int) list" where
  "record_tick ctype col tick typed_value sd =
     (if tick \<noteq> 0 then
        (if ctype = ''datetime'' then
           (case hash_key (column_name col) of
              Inl e \<Rightarrow> Inl e
            | Inr k \<Rightarrow> Inr (AList.update k tick sd))
         else if ctype = ''timespan'' then
           (case is_own_abs typed_value of
              Inl e \<Rightarrow> Inl e
            | Inr p \<Rightarrow>
                (case hash_key (column_name col) of
                   Inl e \<Rightarrow> Inl e
                 | Inr k \<Rightarrow> Inr (AList.update k (if p then tick else - tick) sd)))
         else Inl TypeError)
      else Inr sd)"

text \<open>The body of the \<^verbatim>\<open>try\<close> (lines 94 to 113): the typed value and the new
  \<^verbatim>\<open>_seventh_digit\<close>, or the exception that leaves the body.\<close>

definition precision_body ::
  "(json \<Rightarrow> error + ('dt, 'dec) pyval) \<Rightarrow> string \<Rightarrow> KustoResultColumn \<Rightarrow> string \<Rightarrow> json \<Rightarrow>
     (key \<times> int) list \<Rightarrow> error + ('dt, 'dec) pyval \<times> (key \<times> int) list" where
  "precision_body conv ctype col suffix v sd =
     (case extract_seventh v of
        NoFraction e \<Rightarrow> Inl e
      | ShortFraction f e \<Rightarrow> Inl e
      | Seventh f seventh_char \<Rightarrow>
          if isdigit seventh_char then
            (case int_of_char seventh_char of
               Inl e \<Rightarrow> Inl e
             | Inr tick \<Rightarrow>
                 (case v of
                    JStr s \<Rightarrow>
                      (let lookback = (if suffix \<noteq> [] then 2 else (1 :: nat))
                       in case conv (JStr (take (length s - lookback) s @ suffix)) of
                            Inl e \<Rightarrow> Inl e
                          | Inr typed_value \<Rightarrow>
                              (case record_tick ctype col tick typed_value sd of
                                 Inl e \<Rightarrow> Inl e
                               | Inr sd' \<Rightarrow> Inr (typed_value, sd')))
                  | _ \<Rightarrow> Inl TypeError))
          else
            (case conv v of
               Inl e \<Rightarrow> Inl e
             | Inr typed_value \<Rightarrow> Inr (typed_value, sd)))"

text \<open>\<^verbatim>\<open>except (IndexError, AttributeError)\<close>: whatever raised one of the two inside the
  body, the converter included, the full raw value is converted instead.\<close>

definition caught :: "error \<Rightarrow> bool" where
  "caught e = (e = IndexError \<or> e = AttributeError)"

definition precision_try ::
  "(json \<Rightarrow> error + ('dt, 'dec) pyval) \<Rightarrow> string \<Rightarrow> KustoResultColumn \<Rightarrow> string \<Rightarrow> json \<Rightarrow>
     (key \<times> int) list \<Rightarrow> error + ('dt, 'dec) pyval \<times> (key \<times> int) list" where
  "precision_try conv ctype col suffix v sd =
     (case precision_body conv ctype col suffix v sd of
        Inr r \<Rightarrow> Inr r
      | Inl e \<Rightarrow>
          if caught e then
            (case conv v of
               Inl e' \<Rightarrow> Inl e'
             | Inr typed_value \<Rightarrow> Inr (typed_value, sd))
          else Inl e)"

text \<open>Lines 140 and 141, and the appends to \<^verbatim>\<open>_hidden_values\<close> under the module flag.\<close>

definition store ::
  "KustoResultColumn \<Rightarrow> ('dt, 'dec) pyval \<Rightarrow> ('dt, 'dec) KustoResultRow \<Rightarrow>
     error + ('dt, 'dec) KustoResultRow" where
  "store col typed_value self =
     (case hash_key (column_name col) of
        Inl e \<Rightarrow> Inl e
      | Inr k \<Rightarrow>
          Inr (self\<lparr>value_by_index := value_by_index self @ [typed_value],
                    value_by_name := AList.update k typed_value (value_by_name self)\<rparr>))"

definition hide ::
  "('dt, 'dec) host \<Rightarrow> json \<Rightarrow> ('dt, 'dec) KustoResultRow \<Rightarrow> ('dt, 'dec) KustoResultRow" where
  "hide h v self =
     (if keep_high_precision_values h then self\<lparr>hidden_values := hidden_values self @ [v]\<rparr>
      else self)"

text \<open>
  One pass of the loop of \<^verbatim>\<open>KustoResultRow.__init__\<close> (lines 64 to 141) for the column
  and the value of one cell. \<^verbatim>\<open>column.column_type.lower()\<close> raises \<^verbatim>\<open>AttributeError\<close> for
  every type that is not a string; that branch files the value under \<^verbatim>\<open>columns[i]\<close>, the
  column object.
\<close>

definition decode_cell ::
  "('dt, 'dec) host \<Rightarrow> KustoResultColumn \<Rightarrow> json \<Rightarrow> ('dt, 'dec) KustoResultRow \<Rightarrow>
     error + ('dt, 'dec) KustoResultRow" where
  "decode_cell h col v self =
     (case column_type col of
        JStr t \<Rightarrow>
          (let ctype = str_lower t in
           if ctype = ''datetime'' \<or> ctype = ''timespan'' then
             (if v = JNull then store col (Raw JNull) (hide h JNull self)
              else
                (case get_last v of
                   Inl e \<Rightarrow> Inl e
                 | Inr suffix \<Rightarrow>
                     (case convertion_funcs h ctype of
                        None \<Rightarrow> Inl KeyError
                      | Some conv \<Rightarrow>
                          (case precision_try conv ctype col suffix v (seventh_digit self) of
                             Inl e \<Rightarrow> Inl e
                           | Inr (typed_value, sd) \<Rightarrow>
                               (let self1 = self\<lparr>seventh_digit := sd\<rparr>;
                                    x = extract_seventh v
                                in if keep_high_precision_values h then
                                     (case get_precise_repr h ctype v typed_value (fractions_of x)
                                             suffix (lookback_of x suffix) (seventh_of x) of
                                        Inl e \<Rightarrow> Inl e
                                      | Inr p \<Rightarrow>
                                          store col typed_value
                                            (self1\<lparr>hidden_values := hidden_values self1 @ [p]\<rparr>))
                                   else store col typed_value self1)))))
           else
             (case convertion_funcs h ctype of
                Some conv \<Rightarrow>
                  (case conv v of
                     Inl e \<Rightarrow> Inl e
                   | Inr typed_value \<Rightarrow> store col typed_value (hide h v self))
              | None \<Rightarrow> store col (Raw v) (hide h v self)))
      | _ \<Rightarrow>
          Inr (hide h v
                 (self\<lparr>value_by_index := value_by_index self @ [Raw v],
                       value_by_name := AList.update (KColumn col) (Raw v) (value_by_name self)\<rparr>)))"

text \<open>The key under which one pass of the loop files the value: the hashed column name
  (line 141), or the column object in the branch of line 69.\<close>

definition cell_key :: "KustoResultColumn \<Rightarrow> error + key" where
  "cell_key col =
     (case column_type col of
        JStr t \<Rightarrow> hash_key (column_name col)
      | _ \<Rightarrow> Inr (KColumn col))"

text \<open>The loop over \<^verbatim>\<open>enumerate(row)\<close>; \<^verbatim>\<open>columns[i]\<close> raises when the row is longer than
  the column list.\<close>

fun decode_cells ::
  "('dt, 'dec) host \<Rightarrow> KustoResultColumn list \<Rightarrow> nat \<Rightarrow> json list \<Rightarrow>
     ('dt, 'dec) KustoResultRow \<Rightarrow> error + ('dt, 'dec) KustoResultRow" where
  "decode_cells h cols i [] self = Inr self"
| "decode_cells h cols i (v # vs) self =
     (case subscript cols i of
        Inl e \<Rightarrow> Inl e
      | Inr col \<Rightarrow>
          (case decode_cell h col v self of
             Inl e \<Rightarrow> Inl e
           | Inr self' \<Rightarrow> decode_cells h cols (Suc i) vs self'))"

definition empty_row :: "('dt, 'dec) KustoResultRow" where
  "empty_row = \<lparr>value_by_name = [], value_by_index = [], hidden_values = [], seventh_digit = []\<rparr>"

definition KustoResultRow_init ::
  "('dt, 'dec) host \<Rightarrow> KustoResultColumn list \<Rightarrow> json \<Rightarrow> error + ('dt, 'dec) KustoResultRow" where
  "KustoResultRow_init h cols row =
     (case py_iter row of
        Inl e \<Rightarrow> Inl e
      | Inr vs \<Rightarrow> decode_cells h cols 0 vs empty_row)"

text \<open>\<^verbatim>\<open>columns_count\<close>, \<^verbatim>\<open>__len__\<close>, \<^verbatim>\<open>__getitem__\<close> (an integer key is a position, any
  other key a name), \<^verbatim>\<open>to_dict\<close> and \<^verbatim>\<open>to_list\<close> of a row.\<close>

definition columns_count :: "('dt, 'dec) KustoResultRow \<Rightarrow> nat" where
  "columns_count self = length (value_by_name self)"

definition KustoResultRow_len :: "('dt, 'dec) KustoResultRow \<Rightarrow> nat" where
  "KustoResultRow_len self = columns_count self"

definition KustoResultRow_getitem ::
  "('dt, 'dec) KustoResultRow \<Rightarrow> key \<Rightarrow> error + ('dt, 'dec) pyval" where
  "KustoResultRow_getitem self k =
     (case k of
        KInt i \<Rightarrow> py_index (value_by_index self) i
      | _ \<Rightarrow> (case map_of (value_by_name self) k of None \<Rightarrow> Inl KeyError | Some v \<Rightarrow> Inr v))"

definition KustoResultRow_to_dict ::
  "('dt, 'dec) KustoResultRow \<Rightarrow> (key \<times> ('dt, 'dec) pyval) list" where
  "KustoResultRow_to_dict self = value_by_name self"

definition KustoResultRow_to_list :: "('dt, 'dec) KustoResultRow \<Rightarrow> ('dt, 'dec) pyval list" where
  "KustoResultRow_to_list self = value_by_index self"

section \<open>Building a table\<close>

text \<open>\<^verbatim>\<open>KustoResultColumn.__init__\<close>: \<^verbatim>\<open>json_column.get("ColumnType") or json_column["DataType"]\<close>.\<close>

definition KustoResultColumn_init :: "json \<Rightarrow> nat \<Rightarrow> error + KustoResultColumn" where
  "KustoResultColumn_init json_column ordianl =
     (case getitem_str json_column ''ColumnName'' of
        Inl e \<Rightarrow> Inl e
      | Inr cname \<Rightarrow>
          (case json_column of
             JDict kvs \<Rightarrow>
               (let t = dict_get kvs ''ColumnType'' in
                if truthy t then
                  Inr \<lparr>column_name = cname, column_type = t, ordinal = ordianl\<rparr>
                else
                  (case getitem_str json_column ''DataType'' of
                     Inl e \<Rightarrow> Inl e
                   | Inr t' \<Rightarrow> Inr \<lparr>column_name = cname, column_type = t', ordinal = ordianl\<rparr>))
           | _ \<Rightarrow> Inl AttributeError))"

fun build_columns :: "nat \<Rightarrow> json list \<Rightarrow> error + KustoResultColumn list" where
  "build_columns i [] = Inr []"
| "build_columns i (c # cs) =
     (case KustoResultColumn_init c i of
        Inl e \<Rightarrow> Inl e
      | Inr col \<Rightarrow>
          (case build_columns (Suc i) cs of
             Inl e \<Rightarrow> Inl e
           | Inr cols \<Rightarrow> Inr (col # cols)))"

text \<open>Line 191 and line 192.\<close>

definition parse_kind :: "(string \<times> json) list \<Rightarrow> error + WellKnownDataSet option" where
  "parse_kind kvs =
     (case map_of kvs ''TableKind'' of
        None \<Rightarrow> Inr None
      | Some k \<Rightarrow> map_sum id Some (enum_lookup k))"

definition parse_columns :: "(string \<times> json) list \<Rightarrow> error + KustoResultColumn list" where
  "parse_columns kvs =
     (case getitem_str (JDict kvs) ''Columns'' of
        Inl e \<Rightarrow> Inl e
      | Inr cs \<Rightarrow>
          (case py_iter cs of
             Inl e \<Rightarrow> Inl e
           | Inr js \<Rightarrow> build_columns 0 js))"

text \<open>\<^verbatim>\<open>errors[0]["OneApiErrors"][0]["error"]["@message"]\<close>.\<close>

definition error_message :: "json \<Rightarrow> error + json" where
  "error_message e0 =
     (case getitem_str e0 ''OneApiErrors'' of
        Inl e \<Rightarrow> Inl e
      | Inr a \<Rightarrow>
          (case getitem_zero a of
             Inl e \<Rightarrow> Inl e
           | Inr b \<Rightarrow>
               (case getitem_str b ''error'' of
                  Inl e \<Rightarrow> Inl e
                | Inr c \<Rightarrow> getitem_str c ''@message'')))"

fun decode_rows ::
  "('dt, 'dec) host \<Rightarrow> KustoResultColumn list \<Rightarrow> json list \<Rightarrow>
     error + ('dt, 'dec) KustoResultRow list" where
  "decode_rows h cols [] = Inr []"
| "decode_rows h cols (r # rs) =
     (case KustoResultRow_init h cols r of
        Inl e \<Rightarrow> Inl e
      | Inr x \<Rightarrow>
          (case decode_rows h cols rs of
             Inl e \<Rightarrow> Inl e
           | Inr xs \<Rightarrow> Inr (x # xs)))"

text \<open>\<^verbatim>\<open>KustoResultTable.__init__\<close>. A document that is not a dict has no \<^verbatim>\<open>get\<close>.\<close>

definition KustoResultTable_init ::
  "('dt, 'dec) host \<Rightarrow> json \<Rightarrow> error + ('dt, 'dec) KustoResultTable" where
  "KustoResultTable_init h json_table =
     (case json_table of
        JDict kvs \<Rightarrow>
          (case parse_kind kvs of
             Inl e \<Rightarrow> Inl e
           | Inr kind \<Rightarrow>
               (case parse_columns kvs of
                  Inl e \<Rightarrow> Inl e
                | Inr cols \<Rightarrow>
                    (case getitem_str json_table ''Rows'' of
                       Inl e \<Rightarrow> Inl e
                     | Inr rows_json \<Rightarrow>
                         (case py_iter rows_json of
                            Inl e \<Rightarrow> Inl e
                          | Inr rs \<Rightarrow>
                              (case filter is_dict rs of
                                 e0 # _ \<Rightarrow>
                                   (case error_message e0 of
                                      Inl e \<Rightarrow> Inl e
                                    | Inr m \<Rightarrow> Inl (KustoServiceError m json_table))
                               | [] \<Rightarrow>
                                   (case decode_rows h cols rs of
                                      Inl e \<Rightarrow> Inl e
                                    | Inr rws \<Rightarrow>
                                        Inr \<lparr>table_name = dict_get kvs ''TableName'',
                                             table_id = dict_get kvs ''TableId'',
                                             table_kind = kind,
                                             columns = cols,
                                             rows = rws\<rparr>))))))
      | _ \<Rightarrow> Inl AttributeError)"

text \<open>
  \<^verbatim>\<open>to_dict\<close> of a table. The value under \<^verbatim>\<open>"kind"\<close> is \<^verbatim>\<open>None\<close>, a member of the enum
  or, once \<^verbatim>\<open>__str__\<close> has replaced it, the member's string.
\<close>

datatype kind_repr = KindNone | KindMember WellKnownDataSet | KindValue string

record ('dt, 'dec) table_dict =
  d_name :: json
  d_kind :: kind_repr
  d_data :: "(key \<times> ('dt, 'dec) pyval) list list"

definition KustoResultTable_to_dict :: "('dt, 'dec) KustoResultTable \<Rightarrow> ('dt, 'dec) table_dict" where
  "KustoResultTable_to_dict self =
     \<lparr>d_name = table_name self,
      d_kind = (case table_kind self of None \<Rightarrow> KindNone | Some k \<Rightarrow> KindMember k),
      d_data = map KustoResultRow_to_dict (rows self)\<rparr>"

text \<open>\<^verbatim>\<open>__str__\<close>: \<^verbatim>\<open>d["kind"].value\<close>, then \<^verbatim>\<open>json.dumps\<close>, which is taken as given.\<close>

definition KustoResultTable_str ::
  "(('dt, 'dec) table_dict \<Rightarrow> error + string) \<Rightarrow> ('dt, 'dec) KustoResultTable \<Rightarrow> error + string" where
  "KustoResultTable_str json_dumps self =
     (let d = KustoResultTable_to_dict self
      in case d_kind d of
           KindMember k \<Rightarrow> json_dumps (d\<lparr>d_kind := KindValue (enum_value k)\<rparr>)
         | _ \<Rightarrow> Inl AttributeError)"

text \<open>\<^verbatim>\<open>__bool__\<close>: \<^verbatim>\<open>any(self.columns)\<close>. \<^verbatim>\<open>KustoResultColumn\<close> defines neither \<^verbatim>\<open>__bool__\<close>
  nor \<^verbatim>\<open>__len__\<close>, so every column object is true.\<close>

definition column_truth :: "KustoResultColumn \<Rightarrow> bool" where
  "column_truth col = True"

definition KustoResultTable_bool :: "('dt, 'dec) KustoResultTable \<Rightarrow> bool" where
  "KustoResultTable_bool self = list_ex column_truth (columns self)"

definition rows_count :: "('dt, 'dec) KustoResultTable \<Rightarrow> nat" where
  "rows_count self = length (rows self)"

definition KustoResultTable_columns_count :: "('dt, 'dec) KustoResultTable \<Rightarrow> nat" where
  "KustoResultTable_columns_count self = length (columns self)"

section \<open>Sample inputs\<close>

text \<open>
  A host for the closed examples below. Its two temporal converters are tables: they
  give the values the real parsers return on the strings of the examples and reject every
  other input. \<open>'dt\<close> is the list year, month, day, hour, minute, second, microsecond;
  \<open>'dec\<close> is the text of the decimal. Its float operations are placeholders: the examples
  with a timespan cell switch the high-precision flag off.
\<close>

definition sample_to_datetime :: "json \<Rightarrow> error + nat list" where
  "sample_to_datetime v =
     (if v = JStr ''2021-01-01T00:00:00.123456'' then Inr [2021, 1, 1, 0, 0, 0, 123456]
      else if v = JStr ''2021-01-01T00:00:00.5'' then Inr [2021, 1, 1, 0, 0, 0, 500000]
      else Inl ValueError)"

definition sample_to_timedelta :: "json \<Rightarrow> error + int" where
  "sample_to_timedelta v =
     (if v = JStr ''-00:00:01.123456'' then Inr (- 1123456)
      else if v = JStr ''00:00:01.123456'' then Inr 1123456
      else Inl ValueError)"

definition sample_host :: "bool \<Rightarrow> (nat list, string) host" where
  "sample_host hp =
     \<lparr>to_datetime = sample_to_datetime,
      to_timedelta = sample_to_timedelta,
      Decimal = (\<lambda>v. case v of JStr s \<Rightarrow> Inr s | _ \<Rightarrow> Inl TypeError),
      total_seconds = (\<lambda>us. PyFloat 0),
      int_of_float = (\<lambda>x. 0),
      float_of_str = (\<lambda>s. Inl ValueError),
      keep_high_precision_values = hp\<rparr>"

definition ts_column :: KustoResultColumn where
  "ts_column = \<lparr>column_name = JStr ''ts'', column_type = JStr ''datetime'', ordinal = 0\<rparr>"


text \<open>Table documents: a row that is an error object, after a data row and under an
  unknown kind; two columns of one name; a column whose type is null; a table with and
  without \<^verbatim>\<open>TableKind\<close>.\<close>

definition error_row :: json where
  "error_row =
     JDict [(''OneApiErrors'', JList [JDict [(''error'', JDict [(''@message'', JStr ''boom'')])]])]"

definition int_column :: "string \<Rightarrow> json" where
  "int_column n = JDict [(''ColumnName'', JStr n), (''ColumnType'', JStr ''int'')]"

definition partial_failure_doc :: json where
  "partial_failure_doc =
     JDict [(''TableName'', JStr ''t''), (''TableKind'', JStr ''PrimaryResult''),
            (''Columns'', JList [int_column ''a'']),
            (''Rows'', JList [JList [JInt 1], error_row])]"

definition unknown_kind_doc :: json where
  "unknown_kind_doc =
     JDict [(''TableKind'', JStr ''Bogus''), (''Columns'', JList []),
            (''Rows'', JList [error_row])]"

definition duplicate_names_doc :: json where
  "duplicate_names_doc =
     JDict [(''Columns'', JList [int_column ''a'', int_column ''a'']),
            (''Rows'', JList [JList [JInt 1, JInt 2]])]"

definition null_type_doc :: json where
  "null_type_doc =
     JDict [(''Columns'', JList [JDict [(''ColumnName'', JStr ''x''), (''DataType'', JNull)]]),
            (''Rows'', JList [JList [JInt 5]])]"

definition primary_doc :: json where
  "primary_doc =
     JDict [(''TableName'', JStr ''t''), (''TableKind'', JStr ''PrimaryResult''),
            (''Columns'', JList [int_column ''a'']),
            (''Rows'', JList [JList [JInt 1]])]"

definition kindless_doc :: json where
  "kindless_doc =
     JDict [(''TableName'', JStr ''t''),
            (''Columns'', JList [int_column ''a'']),
            (''Rows'', JList [JList [JInt 1]])]"

section \<open>Facts about the built-ins and the decoding steps\<close>

lemma str_split_none: "sep \<notin> set xs \<Longrightarrow> str_split sep xs = [xs]"
  by (induction xs) auto

lemma str_split_append:
  "sep \<notin> set xs \<Longrightarrow> str_split sep (xs @ sep # ys) = xs # str_split sep ys"
  by (induction xs) auto



lemma int_of_char_digit:
  assumes "int_of_char c = Inr tick"
  shows "isdigit c" and "\<not> isalpha c" and "0 \<le> tick" and "tick \<le> 9"
    and "c \<noteq> CHR '':''" and "c \<noteq> CHR ''.''"
  using assms by (auto simp: int_of_char_def isdigit_def isalpha_def Let_def split: if_splits)

lemma isdigit_not_sep:
  assumes "isdigit c"
  shows "c \<noteq> CHR '':''" and "c \<noteq> CHR ''.''"
  using assms by (auto simp: isdigit_def)

lemma digits_no_separator:
  "list_all isdigit f \<Longrightarrow> CHR '':'' \<notin> set f \<and> CHR ''.'' \<notin> set f"
  by (induction f) (auto simp: isdigit_def)

lemma str_lower_samples:
  "str_lower ''datetime'' = ''datetime''"
  "str_lower ''TimeSpan'' = ''timespan''"
  by (simp_all add: str_lower_def lower_char_def char_of_eq_iff)



lemma extract_seventh_fraction:
  assumes "CHR '':'' \<notin> set a" "CHR '':'' \<notin> set b" "CHR '':'' \<notin> set s" "CHR ''.'' \<notin> set s"
    and "CHR '':'' \<notin> set f" "CHR ''.'' \<notin> set f" "length f = 6"
    and "c \<noteq> CHR '':''" "c \<noteq> CHR ''.''"
  shows "extract_seventh (JStr (a @ '':'' @ b @ '':'' @ s @ ''.'' @ f @ [c])) = Seventh (f @ [c]) c"
proof -
  have 1: "subscript (str_split CHR '':'' (a @ '':'' @ b @ '':'' @ s @ ''.'' @ f @ [c])) 2
             = Inr (s @ ''.'' @ f @ [c])"
    using assms by (simp add: str_split_append str_split_none subscript_def)
  have 2: "subscript (str_split CHR ''.'' (s @ ''.'' @ f @ [c])) 1 = Inr (f @ [c])"
    using assms by (simp add: str_split_append str_split_none subscript_def)
  have 3: "subscript (f @ [c]) 6 = Inr c"
    using assms(7) by (simp add: subscript_def nth_append)
  show ?thesis
    by (simp only: extract_seventh_def json.case 1 2 3 sum.case)
qed


lemma get_last_not_alpha:
  "\<not> isalpha c \<Longrightarrow> get_last (JStr (xs @ [c])) = Inr []"
  by (simp add: get_last_def)



lemma sample_datetime_extract:
  "extract_seventh (JStr (''2021-01-01T00:00:00.123456'' @ [CHR ''7''])) = Seventh ''1234567'' CHR ''7''"
  by (simp add: extract_seventh_def subscript_def)

subsection \<open>One cell\<close>


lemma decode_datetime_cell:
  fixes h :: "('dt, 'dec) host"
  assumes ty: "column_type col = JStr t" "str_lower t = ''datetime''"
    and nm: "hash_key (column_name col) = Inr k"
    and ex: "extract_seventh (JStr (xs @ [c])) = Seventh f c"
    and dg: "int_of_char c = Inr tick" "tick \<noteq> 0"
    and cv: "to_datetime h (JStr xs) = Inr d"
  shows "decode_cell h col (JStr (xs @ [c])) self =
           Inr (self\<lparr>value_by_index := value_by_index self @ [Datetime d],
                     value_by_name := AList.update k (Datetime d) (value_by_name self),
                     hidden_values :=
                       (if keep_high_precision_values h
                        then hidden_values self @ [JStr (xs @ [c] @ ''00'')]
                        else hidden_values self),
                     seventh_digit := AList.update k tick (seventh_digit self)\<rparr>)"
proof -
  let ?conv = "(\<lambda>v. map_sum id Datetime (to_datetime h v)) :: json \<Rightarrow> error + ('dt, 'dec) pyval"
  have cf: "convertion_funcs h ''datetime'' = Some ?conv"
    by (simp add: convertion_funcs_def)
  have gl: "get_last (JStr (xs @ [c])) = Inr []"
    using int_of_char_digit(2)[OF dg(1)] by (rule get_last_not_alpha)
  have rt: "record_tick ''datetime'' col tick (Datetime d :: ('dt, 'dec) pyval) (seventh_digit self)
              = Inr (AList.update k tick (seventh_digit self))"
    using dg(2) nm by (simp add: record_tick_def)
  have pb: "precision_body ?conv ''datetime'' col [] (JStr (xs @ [c])) (seventh_digit self)
              = Inr (Datetime d, AList.update k tick (seventh_digit self))"
    using int_of_char_digit(1)[OF dg(1)] dg(1) cv rt
    by (simp add: precision_body_def ex)
  have pt: "precision_try ?conv ''datetime'' col [] (JStr (xs @ [c])) (seventh_digit self)
              = Inr (Datetime d, AList.update k tick (seventh_digit self))"
    by (simp add: precision_try_def pb)
  have pr: "get_precise_repr h ''datetime'' (JStr (xs @ [c])) (Datetime d) (Some f) []
              (Some (Suc 0)) (Some c) = Inr (JStr (xs @ [c] @ ''00''))"
    using int_of_char_digit(1)[OF dg(1)] by (simp add: get_precise_repr_def)
  show ?thesis
    using ty nm int_of_char_digit(1)[OF dg(1)]
    by (cases "keep_high_precision_values h")
       (simp_all add: decode_cell_def gl cf pt ex pr store_def Let_def)
qed




lemma timespan_converter:
  "convertion_funcs h ''timespan'' = Some conv \<Longrightarrow> conv x = Inr tv \<Longrightarrow> \<exists>us. tv = Timedelta us"
  by (cases "to_timedelta h x") (auto simp: convertion_funcs_def)

lemma decode_cell_no_type:
  "\<forall>s. column_type col \<noteq> JStr s \<Longrightarrow>
     decode_cell h col v self =
       Inr (hide h v (self\<lparr>value_by_index := value_by_index self @ [Raw v],
                          value_by_name := AList.update (KColumn col) (Raw v) (value_by_name self)\<rparr>))"
  by (cases "column_type col") (simp_all add: decode_cell_def)

lemma decode_cell_plain:
  assumes "column_type col = JStr t" "convertion_funcs h (str_lower t) = None"
    and "hash_key (column_name col) = Inr k"
  shows "decode_cell h col v self =
           Inr (hide h v self\<lparr>value_by_index := value_by_index self @ [Raw v],
                               value_by_name := AList.update k (Raw v) (value_by_name self)\<rparr>)"
proof -
  from assms(2) have "str_lower t \<noteq> ''datetime''" "str_lower t \<noteq> ''timespan''"
    by (auto simp: convertion_funcs_def split: if_splits)
  with assms show ?thesis
    by (simp add: decode_cell_def Let_def store_def hide_def)
qed

lemma int_converter: "convertion_funcs h (str_lower ''int'') = None"
  by (simp add: convertion_funcs_def str_lower_def lower_char_def)

lemma int_cell:
  "decode_cell h \<lparr>column_name = JStr n, column_type = JStr ''int'', ordinal = i\<rparr> v self =
     Inr (hide h v self\<lparr>value_by_index := value_by_index self @ [Raw v],
                         value_by_name := AList.update (KStr n) (Raw v) (value_by_name self)\<rparr>)"
  by (rule decode_cell_plain[OF _ int_converter]) simp_all



lemma store_shape:
  "store col tv r = Inr r' \<Longrightarrow>
     \<exists>k. hash_key (column_name col) = Inr k \<and>
         value_by_index r' = value_by_index r @ [tv] \<and>
         value_by_name r' = AList.update k tv (value_by_name r)"
  by (auto simp: store_def split: sum.splits)

lemma hide_fields:
  "value_by_index (hide h v r) = value_by_index r"
  "value_by_name (hide h v r) = value_by_name r"
  "seventh_digit (hide h v r) = seventh_digit r"
  by (simp_all add: hide_def)

lemma decode_cell_shape:
  assumes "decode_cell h col v self = Inr self'"
  shows "\<exists>k x. cell_key col = Inr k \<and>
           value_by_index self' = value_by_index self @ [x] \<and>
           value_by_name self' = AList.update k x (value_by_name self)"
proof (cases "\<exists>t. column_type col = JStr t")
  case False
  then have "\<forall>s. column_type col \<noteq> JStr s" by simp
  from decode_cell_no_type[OF this, of h v self] assms False show ?thesis
    by (cases "column_type col") (auto simp: cell_key_def hide_fields)
next
  case True
  then obtain t where t: "column_type col = JStr t" by blast
  then have ck: "cell_key col = hash_key (column_name col)"
    by (simp add: cell_key_def)
  from assms t obtain tv r where "store col tv r = Inr self'"
    and "value_by_index r = value_by_index self" and "value_by_name r = value_by_name self"
    by (auto simp: decode_cell_def Let_def hide_fields split: if_splits sum.splits option.splits prod.splits)
  with store_shape[of col tv r self'] ck show ?thesis by auto
qed

subsection \<open>Rows and tables\<close>

lemma decode_single_cell:
  "decode_cell h col v empty_row = Inr r \<Longrightarrow> KustoResultRow_init h [col] (JList [v]) = Inr r"
  by (simp add: KustoResultRow_init_def subscript_def)

lemma decode_cells_shape:
  assumes "decode_cells h cols i vs self = Inr self'"
  shows "\<exists>ks. map cell_key (take (length vs) (drop i cols)) = map Inr ks \<and>
           length ks = length vs \<and>
           length (value_by_index self') = length (value_by_index self) + length vs \<and>
           fst ` set (value_by_name self') = fst ` set (value_by_name self) \<union> set ks \<and>
           (distinct (map fst (value_by_name self)) \<longrightarrow> distinct (map fst (value_by_name self')))"
  using assms
proof (induction vs arbitrary: i self)
  case Nil
  then show ?case by simp
next
  case (Cons v vs)
  from Cons.prems obtain col mid where
    i: "i < length cols" and col: "col = cols ! i" and
    cell: "decode_cell h col v self = Inr mid" and
    rest: "decode_cells h cols (Suc i) vs mid = Inr self'"
    by (auto simp: subscript_def split: if_splits sum.splits)
  from decode_cell_shape[OF cell] obtain k x where
    k: "cell_key col = Inr k" and
    vi: "value_by_index mid = value_by_index self @ [x]" and
    vn: "value_by_name mid = AList.update k x (value_by_name self)"
    by blast
  from Cons.IH[OF rest] obtain ks where
    ks: "map cell_key (take (length vs) (drop (Suc i) cols)) = map Inr ks"
      "length ks = length vs"
      "length (value_by_index self') = length (value_by_index mid) + length vs"
      "fst ` set (value_by_name self') = fst ` set (value_by_name mid) \<union> set ks"
      "distinct (map fst (value_by_name mid)) \<longrightarrow> distinct (map fst (value_by_name self'))"
    by blast
  have dr: "drop i cols = col # drop (Suc i) cols"
    using i col by (simp add: Cons_nth_drop_Suc)
  have "map cell_key (take (length (v # vs)) (drop i cols)) = map Inr (k # ks)"
    using dr k ks(1) by simp
  moreover have "length (k # ks) = length (v # vs)"
    using ks(2) by simp
  moreover have "length (value_by_index self') = length (value_by_index self) + length (v # vs)"
    using ks(3) vi by simp
  moreover have "fst ` set (value_by_name self') = fst ` set (value_by_name self) \<union> set (k # ks)"
    using ks(4) vn by (auto simp: dom_update)
  moreover have "distinct (map fst (value_by_name self)) \<longrightarrow> distinct (map fst (value_by_name self'))"
    using ks(5) vn by (simp add: distinct_update)
  ultimately show ?case by blast
qed

lemma row_entries_per_key:
  assumes ok: "KustoResultRow_init h cols (JList vs) = Inr r" and len: "length vs = length cols"
  shows "\<exists>ks. map cell_key cols = map Inr ks \<and>
           length (KustoResultRow_to_list r) = length cols \<and>
           distinct (map fst (KustoResultRow_to_dict r)) \<and>
           fst ` set (KustoResultRow_to_dict r) = set ks \<and>
           KustoResultRow_len r = card (set ks)"
proof -
  from ok have "decode_cells h cols 0 vs empty_row = Inr r"
    by (simp add: KustoResultRow_init_def)
  from decode_cells_shape[OF this] len obtain ks where
    ks: "map cell_key cols = map Inr ks"
      "length (value_by_index r) = length cols"
      "fst ` set (value_by_name r) = set ks"
      "distinct (map fst (value_by_name r))"
    by (auto simp: empty_row_def)
  from ks(4) have "length (value_by_name r) = card (fst ` set (value_by_name r))"
    by (metis distinct_card length_map set_map)
  with ks show ?thesis
    by (auto simp: KustoResultRow_to_list_def KustoResultRow_to_dict_def KustoResultRow_len_def
        columns_count_def)
qed

lemma row_length_distinct_keys:
  assumes ok: "KustoResultRow_init h cols (JList vs) = Inr r" and len: "length vs = length cols"
    and dist: "distinct (map cell_key cols)"
  shows "KustoResultRow_len r = length cols"
proof -
  from row_entries_per_key[OF ok len] obtain ks where
    ks: "map cell_key cols = map Inr ks" "KustoResultRow_len r = card (set ks)"
    by blast
  from dist ks(1) have "distinct ks"
    by (simp add: distinct_map)
  moreover from ks(1) have "length ks = length cols"
    by (metis length_map)
  ultimately show ?thesis
    using ks(2) by (simp add: distinct_card)
qed

lemma int_column_init:
  "KustoResultColumn_init (int_column n) i =
     Inr \<lparr>column_name = JStr n, column_type = JStr ''int'', ordinal = i\<rparr>"
  by (simp add: KustoResultColumn_init_def int_column_def dict_get_def)

lemma error_row_message: "error_message error_row = Inr (JStr ''boom'')"
  by (simp add: error_message_def error_row_def subscript_def)

lemma error_row_is_dict: "is_dict error_row"
  by (simp add: error_row_def)

lemma enum_round_trip: "enum_lookup (JStr s) = Inr k \<Longrightarrow> enum_value k = s"
  by (auto split: if_splits)

lemma table_init_fields:
  assumes "KustoResultTable_init h (JDict kvs) = Inr t"
  shows "parse_kind kvs = Inr (table_kind t)" and "parse_columns kvs = Inr (columns t)"
  using assms
  by (auto simp: KustoResultTable_init_def split: sum.splits list.splits)

lemma primary_doc_init:
  "KustoResultTable_init h primary_doc =
     Inr \<lparr>table_name = JStr ''t'', table_id = JNull, table_kind = Some PrimaryResult,
          columns = [\<lparr>column_name = JStr ''a'', column_type = JStr ''int'', ordinal = 0\<rparr>],
          rows = [hide h (JInt 1) empty_row
                    \<lparr>value_by_index := [Raw (JInt 1)], value_by_name := [(KStr ''a'', Raw (JInt 1))]\<rparr>]\<rparr>"
  by (simp add: primary_doc_def KustoResultTable_init_def parse_kind_def parse_columns_def
      int_column_init dict_get_def KustoResultRow_init_def subscript_def int_cell empty_row_def)

lemma kindless_doc_init:
  "KustoResultTable_init h kindless_doc =
     Inr \<lparr>table_name = JStr ''t'', table_id = JNull, table_kind = None,
          columns = [\<lparr>column_name = JStr ''a'', column_type = JStr ''int'', ordinal = 0\<rparr>],
          rows = [hide h (JInt 1) empty_row
                    \<lparr>value_by_index := [Raw (JInt 1)], value_by_name := [(KStr ''a'', Raw (JInt 1))]\<rparr>]\<rparr>"
  by (simp add: kindless_doc_def KustoResultTable_init_def parse_kind_def parse_columns_def
      int_column_init dict_get_def KustoResultRow_init_def subscript_def int_cell empty_row_def)

section \<open>A datetime with seven fractional digits\<close>

text \<open>
  C1, as the code has it. A datetime cell whose text is \<open>a:b:s.f\<close> followed by one
  more decimal digit that is not 0, with six digits \<open>f\<close> and nothing after the seventh,
  decodes, with the high-precision flag on or off, to the converter's value of the text
  without its last digit, and \<^verbatim>\<open>_seventh_digit\<close> holds that digit under the column's
  name. With the flag on the hidden value is the whole raw text followed by \<open>00\<close>: the
  seventh digit stays in place. With the flag off no hidden value is kept.
\<close>

theorem datetime_seventh_digit_row:
  fixes h :: "('dt, 'dec) host"
  assumes ty: "column_type col = JStr t" "str_lower t = ''datetime''"
    and nm: "hash_key (column_name col) = Inr k"
    and raw: "raw = a @ '':'' @ b @ '':'' @ s @ ''.'' @ f @ [c]"
    and sep: "CHR '':'' \<notin> set a" "CHR '':'' \<notin> set b" "CHR '':'' \<notin> set s" "CHR ''.'' \<notin> set s"
    and fr: "list_all isdigit f" "length f = 6"
    and dg: "int_of_char c = Inr tick" "tick \<noteq> 0"
    and cv: "to_datetime h (JStr (butlast raw)) = Inr d"
  shows "KustoResultRow_init h [col] (JList [JStr raw]) =
           Inr \<lparr>value_by_name = [(k, Datetime d)],
                value_by_index = [Datetime d],
                hidden_values = (if keep_high_precision_values h then [JStr (raw @ ''00'')] else []),
                seventh_digit = [(k, tick)]\<rparr>"
proof -
  let ?xs = "a @ '':'' @ b @ '':'' @ s @ ''.'' @ f"
  have split: "raw = ?xs @ [c]" using raw by simp
  have ex: "extract_seventh (JStr (?xs @ [c])) = Seventh (f @ [c]) c"
    using extract_seventh_fraction[OF sep(1-4) _ _ fr(2) int_of_char_digit(5,6)[OF dg(1)]]
      digits_no_separator[OF fr(1)] by simp
  have cv': "to_datetime h (JStr ?xs) = Inr d"
    using cv unfolding split by (simp only: butlast_snoc)
  note cell = decode_datetime_cell[OF ty nm ex dg cv', of empty_row]
  from cell[THEN decode_single_cell] show ?thesis
    unfolding split by (simp add: empty_row_def)
qed

text \<open>
  The input of the specification, \<open>2021-01-01T00:00:00.1234567\<close>, with the flag on and
  with the flag off.
\<close>

theorem datetime_seventh_digit_row_witness:
  "KustoResultRow_init (sample_host True) [ts_column] (JList [JStr ''2021-01-01T00:00:00.1234567'']) =
     Inr \<lparr>value_by_name = [(KStr ''ts'', Datetime [2021, 1, 1, 0, 0, 0, 123456])],
          value_by_index = [Datetime [2021, 1, 1, 0, 0, 0, 123456]],
          hidden_values = [JStr ''2021-01-01T00:00:00.123456700''],
          seventh_digit = [(KStr ''ts'', 7)]\<rparr> \<and>
   KustoResultRow_init (sample_host False) [ts_column] (JList [JStr ''2021-01-01T00:00:00.1234567'']) =
     Inr \<lparr>value_by_name = [(KStr ''ts'', Datetime [2021, 1, 1, 0, 0, 0, 123456])],
          value_by_index = [Datetime [2021, 1, 1, 0, 0, 0, 123456]],
          hidden_values = [],
          seventh_digit = [(KStr ''ts'', 7)]\<rparr>"
proof -
  have ty: "column_type ts_column = JStr ''datetime''" "str_lower ''datetime'' = ''datetime''"
    by (simp_all add: ts_column_def str_lower_samples)
  have nm: "hash_key (column_name ts_column) = Inr (KStr ''ts'')"
    by (simp add: ts_column_def)
  have raw: "''2021-01-01T00:00:00.1234567'' =
      ''2021-01-01T00'' @ '':'' @ ''00'' @ '':'' @ ''00'' @ ''.'' @ ''123456'' @ [CHR ''7'']"
    by simp
  have sep: "CHR '':'' \<notin> set ''2021-01-01T00''" "CHR '':'' \<notin> set ''00''"
      "CHR '':'' \<notin> set ''00''" "CHR ''.'' \<notin> set ''00''"
    by simp_all
  have fr: "list_all isdigit ''123456''" "length ''123456'' = 6"
    by (simp_all add: isdigit_def)
  have dg: "int_of_char CHR ''7'' = Inr 7" "(7::int) \<noteq> 0"
    by (simp_all add: int_of_char_def)
  have cv: "to_datetime (sample_host hp) (JStr (butlast ''2021-01-01T00:00:00.1234567''))
              = Inr [2021, 1, 1, 0, 0, 0, 123456]" for hp
    by (simp add: sample_host_def sample_to_datetime_def)
  have hp: "keep_high_precision_values (sample_host True)"
      "\<not> keep_high_precision_values (sample_host False)"
    by (simp_all add: sample_host_def)
  show ?thesis
    using datetime_seventh_digit_row[OF ty nm raw sep fr dg cv[of True]]
      datetime_seventh_digit_row[OF ty nm raw sep fr dg cv[of False]] hp
    by simp
qed

text \<open>
  C1 as stated asks for \<open>2021-01-01T00:00:00.12345600\<close> as the hidden value of that
  input. Line 27 builds \<^verbatim>\<open>raw_value[:-lookback] + seventh_char + "00" + last\<close>, which is
  \<open>2021-01-01T00:00:00.123456700\<close>.
\<close>

theorem datetime_side_value_counterexample:
  "map_sum id hidden_values
     (KustoResultRow_init (sample_host True) [ts_column] (JList [JStr ''2021-01-01T00:00:00.1234567'']))
     = Inr [JStr ''2021-01-01T00:00:00.123456700''] \<and>
   map_sum id hidden_values
     (KustoResultRow_init (sample_host True) [ts_column] (JList [JStr ''2021-01-01T00:00:00.1234567'']))
     \<noteq> Inr [JStr ''2021-01-01T00:00:00.12345600'']"
proof -
  have ty: "column_type ts_column = JStr ''datetime''" "str_lower ''datetime'' = ''datetime''"
    by (simp_all add: ts_column_def str_lower_samples)
  have nm: "hash_key (column_name ts_column) = Inr (KStr ''ts'')"
    by (simp add: ts_column_def)
  have dg: "int_of_char CHR ''7'' = Inr 7" "(7::int) \<noteq> 0"
    by (simp_all add: int_of_char_def)
  have cv: "to_datetime (sample_host True) (JStr ''2021-01-01T00:00:00.123456'')
              = Inr [2021, 1, 1, 0, 0, 0, 123456]"
    by (simp add: sample_host_def sample_to_datetime_def)
  note cell = decode_datetime_cell[OF ty nm sample_datetime_extract dg cv,
      of "empty_row"]
  from cell[THEN decode_single_cell] show ?thesis
    by (simp add: empty_row_def sample_host_def)
qed

section \<open>An error object among the rows\<close>

text \<open>
  C2, as the code has it. When the kind and the columns of a table document parse, and
  its \<^verbatim>\<open>Rows\<close> list holds a dict \<open>e0\<close> after any number of elements that are not dicts and
  before any elements at all, and \<open>e0\<close> has \<^verbatim>\<open>["OneApiErrors"][0]["error"]["@message"]\<close>,
  then building the table raises \<open>KustoServiceError\<close> with that message and the whole
  document. No table is returned, whatever the host's converters would do with the rows.
\<close>

theorem embedded_error_aborts_table:
  assumes "parse_kind kvs = Inr kind" and "parse_columns kvs = Inr cols"
    and "map_of kvs ''Rows'' = Some (JList (pre @ e0 # post))"
    and "\<forall>r \<in> set pre. \<not> is_dict r" and "is_dict e0"
    and "error_message e0 = Inr m"
  shows "KustoResultTable_init h (JDict kvs) = Inl (KustoServiceError m (JDict kvs))"
  using assms by (simp add: KustoResultTable_init_def)

text \<open>
  A data row first, the error object last.
\<close>

theorem embedded_error_aborts_table_witness:
  "KustoResultTable_init (sample_host True) partial_failure_doc =
     Inl (KustoServiceError (JStr ''boom'') partial_failure_doc)"
proof -
  let ?kvs = "[(''TableName'', JStr ''t''), (''TableKind'', JStr ''PrimaryResult''),
            (''Columns'', JList [int_column ''a'']),
            (''Rows'', JList [JList [JInt 1], error_row])]"
  have k: "parse_kind ?kvs = Inr (Some PrimaryResult)"
    by (simp add: parse_kind_def)
  have c: "parse_columns ?kvs = Inr [\<lparr>column_name = JStr ''a'', column_type = JStr ''int'', ordinal = 0\<rparr>]"
    by (simp add: parse_columns_def int_column_init)
  have r: "map_of ?kvs ''Rows'' = Some (JList ([JList [JInt 1]] @ error_row # []))"
    by simp
  have p: "\<forall>r \<in> set [JList [JInt 1]]. \<not> is_dict r"
    by simp
  show ?thesis
    unfolding partial_failure_doc_def
    by (rule embedded_error_aborts_table[OF k c r p error_row_is_dict error_row_message])
qed

text \<open>
  C2 as stated promises the service error for every document with a dict among its
  rows. The kind is looked up on line 191, before the rows are scanned: under an unknown
  \<^verbatim>\<open>TableKind\<close> the constructor raises \<^verbatim>\<open>KeyError\<close>.
\<close>

theorem unknown_kind_counterexample:
  "getitem_str unknown_kind_doc ''Rows'' = Inr (JList [error_row]) \<and> is_dict error_row \<and>
   KustoResultTable_init (sample_host True) unknown_kind_doc = Inl KeyError \<and>
   KustoResultTable_init (sample_host True) unknown_kind_doc
     \<noteq> Inl (KustoServiceError (JStr ''boom'') unknown_kind_doc)"
  by (simp add: unknown_kind_doc_def error_row_is_dict KustoResultTable_init_def parse_kind_def)

section \<open>The length of a row\<close>

text \<open>
  C3 at two columns of one name. The table has two columns and the row two values by
  position, but \<^verbatim>\<open>len(row)\<close>, which is \<^verbatim>\<open>len(self._value_by_name)\<close>, is 1. (By
  \<open>row_length_distinct_keys\<close> the three numbers agree whenever the columns' keys differ.)
\<close>

theorem duplicate_names_row_length:
  "map_sum id
     (\<lambda>t. (KustoResultTable_columns_count t,
            map (\<lambda>r. (length (KustoResultRow_to_list r), KustoResultRow_len r)) (rows t)))
     (KustoResultTable_init h duplicate_names_doc)
   = Inr (2, [(2, 1)])"
  by (simp add: duplicate_names_doc_def KustoResultTable_init_def parse_kind_def parse_columns_def
      int_column_init dict_get_def KustoResultRow_init_def subscript_def int_cell empty_row_def
      hide_def KustoResultTable_columns_count_def KustoResultRow_to_list_def KustoResultRow_len_def
      columns_count_def)

section \<open>The seventh digit of a temporal cell\<close>



section \<open>A column without a type\<close>

text \<open>
  C5, as the code has it. A column object with neither \<^verbatim>\<open>ColumnType\<close> nor \<^verbatim>\<open>DataType\<close>
  cannot be built: \<^verbatim>\<open>json_column["DataType"]\<close> raises \<^verbatim>\<open>KeyError\<close>. A column object with a
  name, no usable \<^verbatim>\<open>ColumnType\<close> and a \<^verbatim>\<open>DataType\<close> of any value is built with that value as
  its type; and for a column whose type is not a string (null, say) a cell never raises:
  the raw value is appended unchanged.
\<close>

theorem column_without_type:
  "(map_of kvs ''ColumnType'' = None \<and> map_of kvs ''DataType'' = None \<longrightarrow>
      KustoResultColumn_init (JDict kvs) i = Inl KeyError) \<and>
   (map_of kvs ''ColumnName'' = Some n \<and> \<not> truthy (dict_get kvs ''ColumnType'') \<and>
    map_of kvs ''DataType'' = Some ty \<longrightarrow>
      KustoResultColumn_init (JDict kvs) i = Inr \<lparr>column_name = n, column_type = ty, ordinal = i\<rparr>) \<and>
   ((\<forall>s. column_type col \<noteq> JStr s) \<longrightarrow>
      decode_cell h col v self =
        Inr (hide h v (self\<lparr>value_by_index := value_by_index self @ [Raw v],
                           value_by_name := AList.update (KColumn col) (Raw v) (value_by_name self)\<rparr>)))"
proof (intro conjI impI)
  assume "map_of kvs ''ColumnType'' = None \<and> map_of kvs ''DataType'' = None"
  then show "KustoResultColumn_init (JDict kvs) i = Inl KeyError"
    by (simp add: KustoResultColumn_init_def dict_get_def split: option.splits)
next
  assume "map_of kvs ''ColumnName'' = Some n \<and> \<not> truthy (dict_get kvs ''ColumnType'') \<and>
    map_of kvs ''DataType'' = Some ty"
  then show "KustoResultColumn_init (JDict kvs) i = Inr \<lparr>column_name = n, column_type = ty, ordinal = i\<rparr>"
    by (simp add: KustoResultColumn_init_def)
next
  assume "\<forall>s. column_type col \<noteq> JStr s"
  then show "decode_cell h col v self =
        Inr (hide h v (self\<lparr>value_by_index := value_by_index self @ [Raw v],
                           value_by_name := AList.update (KColumn col) (Raw v) (value_by_name self)\<rparr>))"
    by (rule decode_cell_no_type)
qed

text \<open>
  A column object with only a name; one with a null \<^verbatim>\<open>DataType\<close>, and a cell of it.
\<close>

theorem column_without_type_witness:
  "KustoResultColumn_init (JDict [(''ColumnName'', JStr ''x'')]) 0 = Inl KeyError \<and>
   KustoResultColumn_init (JDict [(''ColumnName'', JStr ''x''), (''DataType'', JNull)]) 0 =
     Inr \<lparr>column_name = JStr ''x'', column_type = JNull, ordinal = 0\<rparr> \<and>
   decode_cell (sample_host True) \<lparr>column_name = JStr ''x'', column_type = JNull, ordinal = 0\<rparr>
       (JInt 5) empty_row =
     Inr \<lparr>value_by_name = [(KColumn \<lparr>column_name = JStr ''x'', column_type = JNull, ordinal = 0\<rparr>, Raw (JInt 5))],
          value_by_index = [Raw (JInt 5)],
          hidden_values = [JInt 5],
          seventh_digit = []\<rparr>"
proof -
  note t1 = column_without_type[of "[(''ColumnName'', JStr ''x'')]" 0, THEN conjunct1]
  note t2 = column_without_type[of "[(''ColumnName'', JStr ''x''), (''DataType'', JNull)]" 0 "JStr ''x''" JNull,
      THEN conjunct2, THEN conjunct1]
  note t3 = column_without_type[where col = "\<lparr>column_name = JStr ''x'', column_type = JNull, ordinal = 0\<rparr>"
      and h = "sample_host True" and v = "JInt 5" and self = empty_row,
      THEN conjunct2, THEN conjunct2]
  from t1 t2 t3 show ?thesis
    by (simp add: dict_get_def hide_def sample_host_def empty_row_def)
qed

text \<open>
  C5 as stated: the column with neither key is built without raising.
\<close>

theorem missing_type_keys_counterexample:
  "KustoResultColumn_init (JDict [(''ColumnName'', JStr ''x'')]) 0 = Inl KeyError"
  by (simp add: KustoResultColumn_init_def dict_get_def)

section \<open>The kind of a table\<close>

text \<open>
  C6, as the code has it. For a table built from a document whose \<^verbatim>\<open>TableKind\<close> is a
  string, \<^verbatim>\<open>to_dict\<close> holds under \<^verbatim>\<open>"kind"\<close> the member of the enum whose value is that
  string; it is \<^verbatim>\<open>__str__\<close> that puts the string itself in its place before serialising.
\<close>

theorem table_kind_round_trip:
  assumes "KustoResultTable_init h (JDict kvs) = Inr t"
    and "map_of kvs ''TableKind'' = Some (JStr s)"
  shows "\<exists>k. enum_value k = s \<and>
           d_kind (KustoResultTable_to_dict t) = KindMember k \<and>
           KustoResultTable_str json_dumps t =
             json_dumps ((KustoResultTable_to_dict t)\<lparr>d_kind := KindValue s\<rparr>)"
proof -
  from table_init_fields(1)[OF assms(1)] assms(2)
  obtain k where k: "enum_lookup (JStr s) = Inr k" "table_kind t = Some k"
    by (cases "enum_lookup (JStr s)") (auto simp: parse_kind_def)
  from k(1) have "enum_value k = s" by (rule enum_round_trip)
  with k(2) show ?thesis
    by (simp add: KustoResultTable_str_def KustoResultTable_to_dict_def)
qed

text \<open>
  The kind \<open>PrimaryResult\<close>.
\<close>

theorem table_kind_round_trip_witness:
  "\<exists>t. KustoResultTable_init (sample_host True) primary_doc = Inr t \<and>
       d_kind (KustoResultTable_to_dict t) = KindMember PrimaryResult \<and>
       enum_value PrimaryResult = ''PrimaryResult'' \<and>
       KustoResultTable_str (\<lambda>d. Inr ''{}'') t = Inr ''{}''"
proof -
  let ?kvs = "[(''TableName'', JStr ''t''), (''TableKind'', JStr ''PrimaryResult''),
            (''Columns'', JList [int_column ''a'']),
            (''Rows'', JList [JList [JInt 1]])]"
  obtain t where t: "KustoResultTable_init (sample_host True) (JDict ?kvs) = Inr t"
    using primary_doc_init[of "sample_host True"] by (simp add: primary_doc_def)
  have kind: "map_of ?kvs ''TableKind'' = Some (JStr ''PrimaryResult'')"
    by simp
  from table_kind_round_trip[OF t kind, of "\<lambda>d. Inr ''{}''"]
  obtain k where k: "enum_value k = ''PrimaryResult''"
      "d_kind (KustoResultTable_to_dict t) = KindMember k"
      "KustoResultTable_str (\<lambda>d. Inr ''{}'') t = Inr ''{}''"
    by blast
  from k(1) have "k = PrimaryResult" by (cases k) simp_all
  with k t show ?thesis by (auto simp: primary_doc_def)
qed

text \<open>
  C6 as stated: \<^verbatim>\<open>to_dict\<close> renders the kind as the string. It holds the enum member,
  which is not a string.
\<close>

theorem to_dict_kind_counterexample:
  "map_sum id (\<lambda>t. d_kind (KustoResultTable_to_dict t))
      (KustoResultTable_init (sample_host True) primary_doc) = Inr (KindMember PrimaryResult) \<and>
   map_sum id (\<lambda>t. d_kind (KustoResultTable_to_dict t))
      (KustoResultTable_init (sample_host True) primary_doc) \<noteq> Inr (KindValue ''PrimaryResult'')"
  by (simp add: primary_doc_init KustoResultTable_to_dict_def)

section \<open>Failures while looking for the seventh digit\<close>



section \<open>Name lookup for a column without a type\<close>

text \<open>
  C8 at a column whose declared type is null. The value 5 is stored by position, but
  line 69 files it under the column object \<^verbatim>\<open>columns[i]\<close>, not under the name as line 141
  does: \<^verbatim>\<open>row["x"]\<close> raises \<^verbatim>\<open>KeyError\<close>.
\<close>

theorem null_type_column_name_lookup:
  "map_sum id
     (\<lambda>t. map (\<lambda>r. (KustoResultRow_getitem r (KInt 0), KustoResultRow_getitem r (KStr ''x''),
                      map fst (KustoResultRow_to_dict r)))
             (rows t))
     (KustoResultTable_init h null_type_doc)
   = Inr [(Inr (Raw (JInt 5)), Inl KeyError,
           [KColumn \<lparr>column_name = JStr ''x'', column_type = JNull, ordinal = 0\<rparr>])]"
  by (simp add: null_type_doc_def KustoResultTable_init_def parse_kind_def parse_columns_def
      KustoResultColumn_init_def dict_get_def KustoResultRow_init_def subscript_def
      decode_cell_no_type empty_row_def hide_def KustoResultRow_getitem_def py_index_def
      KustoResultRow_to_dict_def)

section \<open>The string of a table\<close>

text \<open>
  C9 at a document without \<^verbatim>\<open>TableKind\<close>. The table is built with kind \<^verbatim>\<open>None\<close>
  (line 191), and \<^verbatim>\<open>__str__\<close> raises \<^verbatim>\<open>AttributeError\<close> on \<^verbatim>\<open>d["kind"].value\<close>, whatever
  \<^verbatim>\<open>json.dumps\<close> would do.
\<close>

theorem str_without_kind_raises:
  "map_sum id (KustoResultTable_str json_dumps) (KustoResultTable_init h kindless_doc)
     = Inr (Inl AttributeError)"
  by (simp add: kindless_doc_init KustoResultTable_str_def KustoResultTable_to_dict_def)

section \<open>The truth value of a table\<close>

text \<open>
  C10. A table is true exactly when it has a column, and replacing its rows by any
  others does not change that.
\<close>

theorem table_truth_value:
  "KustoResultTable_bool t = (columns t \<noteq> []) \<and>
   KustoResultTable_bool (t\<lparr>rows := rs\<rparr>) = KustoResultTable_bool t"
  by (cases "columns t") (simp_all add: KustoResultTable_bool_def column_truth_def)

text \<open>
  One column and no row; no column and one row.
\<close>

theorem table_truth_value_witness:
  "KustoResultTable_bool
     (\<lparr>table_name = JNull, table_id = JNull, table_kind = None, columns = [ts_column],
       rows = []\<rparr> :: (nat list, string) KustoResultTable) \<and>
   \<not> KustoResultTable_bool
     (\<lparr>table_name = JNull, table_id = JNull, table_kind = None, columns = [],
       rows = [empty_row]\<rparr> :: (nat list, string) KustoResultTable)"
  using table_truth_value[of "\<lparr>table_name = JNull, table_id = JNull, table_kind = None,
        columns = [ts_column], rows = []\<rparr> :: (nat list, string) KustoResultTable"]
    table_truth_value[of "\<lparr>table_name = JNull, table_id = JNull, table_kind = None,
        columns = [], rows = [empty_row]\<rparr> :: (nat list, string) KustoResultTable"]
  by simp

end
